theory Spec2Isabelle
  imports Main
begin

section \<open>Failures\<close>

text \<open>
  A C++ exception is a value of the model: every call that can throw returns a sum
  (\<open>Inl\<close> the exception) or an \<open>error option\<close> when it has no result.
  \<open>Bad_function_call\<close> is what calling an empty \<open>std::function\<close> throws,
  \<open>NotFound\<close> what a registry lookup of an unregistered type name throws,
  \<open>Failure\<close> any other exception with its \<open>what()\<close> text.
\<close>

datatype error = Bad_function_call | Failure string | NotFound

section \<open>Attribute sets and records\<close>

text \<open>
  Modelled from the spec: \<open>attribute::pair_t\<close>, \<open>attribute::set_t\<close>,
  \<open>attribute::combined_view_t\<close> and \<open>record_t\<close> are declared in headers that
  are not part of the sources at hand. An attribute pair is a name with a value, an
  attribute set an ordered sequence of pairs (duplicates legal), a combined view the
  sequence of pairs it ranges over, a record either the invalid sentinel or one internal
  and one external attribute set. The type \<open>'v\<close> of attribute values stays a parameter.
\<close>

type_synonym 'v pair_t = "string \<times> 'v"
type_synonym 'v set_t = "'v pair_t list"
type_synonym 'v combined_view_t = "'v pair_t list"

datatype 'v record_t = Invalid | Record (internal: "'v set_t") (external: "'v set_t")

fun valid :: "'v record_t \<Rightarrow> bool" where
  "valid Invalid = False"
| "valid (Record i e) = True"

section \<open>Scoped attributes\<close>

text \<open>
  Modelled from the spec: \<open>feature::scoped_t\<close> (blackhole/logger/feature/scoped.hpp) is
  missing. The state of the calling thread's stack is the list of its active frames,
  outermost first. \<open>view\<close> ranges over all frames, outer to inner, followed by the
  external set and copies nothing; \<open>merge\<close> performs the same concatenation into the
  external set itself.
\<close>

type_synonym 'v scoped_t = "'v set_t list"

definition scoped_view :: "'v scoped_t \<Rightarrow> 'v set_t \<Rightarrow> 'v combined_view_t" where
  "scoped_view frames ext = concat frames @ ext"

definition scoped_merge :: "'v scoped_t \<Rightarrow> 'v set_t \<Rightarrow> 'v set_t" where
  "scoped_merge frames ext = concat frames @ ext"

section \<open>Severity levels and keywords\<close>

text \<open>
  \<open>Level\<close> is an enumeration; an enumerator is identified with the value it has in its
  underlying integral type: \<open>underlying\<close> is \<open>static_cast<underlying_type>(level)\<close> and
  \<open>Level\<close> is \<open>static_cast<level_type>(n)\<close>.
\<close>

type_synonym underlying_type = int

datatype level_type = Level (underlying: underlying_type)

text \<open>
  The keywords (blackhole/keyword/*.hpp) and the providers \<open>keyword::init::*\<close> are not
  among the sources; they are a parameter of the model. \<open>pid\<close>, \<open>tid\<close> and \<open>lwp\<close> are
  \<open>None\<close> when the build does not define \<open>BLACKHOLE_HAS_ATTRIBUTE_PID\<close>,
  \<open>..._TID\<close>, \<open>..._LWP\<close>; otherwise they hold what the provider returns.
  \<open>timestamp\<close> is what \<open>keyword::init::timestamp()\<close> returns at the call, and
  \<open>severity l\<close> the attribute value that \<open>keyword::severity<Level>() = l\<close> stores.
\<close>

record 'v keyword_t =
  pid :: "'v option"
  tid :: "'v option"
  lwp :: "'v option"
  timestamp :: 'v
  severity :: "level_type \<Rightarrow> 'v"

section \<open>The composite logger\<close>

text \<open>
  \<open>filter_type\<close> is a \<open>std::function\<close> returning bool; calling it may throw (an empty
  one throws \<open>Bad_function_call\<close>). A frontend's \<open>handle\<close> and the exception handler act
  on the world \<open>'w\<close> outside the logger and may throw as well.
\<close>

type_synonym ('v, 'a) filter_type = "'v combined_view_t \<Rightarrow> 'a \<Rightarrow> error + bool"
type_synonym ('v, 'w) base_frontend_t = "'v record_t \<Rightarrow> 'w \<Rightarrow> error option \<times> 'w"
type_synonym 'w exception_handler_t = "'w \<Rightarrow> error option \<times> 'w"

record ('v, 'a, 'w) composite_logger_t =
  scoped :: "'v scoped_t"
  enabled :: bool
  filter_f :: "('v, 'a) filter_type"
  exception :: "'w exception_handler_t"
  frontends :: "('v, 'w) base_frontend_t list"

text \<open>
  Modelled from the spec: \<open>log::default_exception_handler_t\<close> (blackhole/error/handler.hpp)
  is missing; its behaviour is implementation-defined best-effort reporting, modelled as
  returning normally without touching the world.
\<close>

definition default_exception_handler_t :: "'w exception_handler_t" where
  "default_exception_handler_t w = (None, w)"

definition composite_logger_t :: "('v, 'a) filter_type \<Rightarrow> ('v, 'a, 'w) composite_logger_t" where
  "composite_logger_t flt =
     \<lparr>scoped = [], enabled = True, filter_f = flt,
      exception = default_exception_handler_t, frontends = []\<rparr>"

definition set_enabled :: "bool \<Rightarrow> ('v, 'a, 'w) composite_logger_t \<Rightarrow> ('v, 'a, 'w) composite_logger_t" where
  "set_enabled enable lg = lg\<lparr>enabled := enable\<rparr>"

definition set_filter :: "('v, 'a) filter_type \<Rightarrow> ('v, 'a, 'w) composite_logger_t \<Rightarrow> ('v, 'a, 'w) composite_logger_t" where
  "set_filter flt lg = lg\<lparr>filter_f := flt\<rparr>"

definition add_frontend :: "('v, 'w) base_frontend_t \<Rightarrow> ('v, 'a, 'w) composite_logger_t \<Rightarrow> ('v, 'a, 'w) composite_logger_t" where
  "add_frontend frontend lg = lg\<lparr>frontends := frontends lg @ [frontend]\<rparr>"

definition set_exception_handler :: "'w exception_handler_t \<Rightarrow> ('v, 'a, 'w) composite_logger_t \<Rightarrow> ('v, 'a, 'w) composite_logger_t" where
  "set_exception_handler handler lg = lg\<lparr>exception := handler\<rparr>"

subsection \<open>open_record\<close>

text \<open>
  \<open>populate\<close> appends the process attributes the build has, then the timestamp.
  The pairs are stored under the names of their keywords. The calls of \<open>reserve\<close>
  change the capacity of a set, not its pairs, and have no counterpart here; nor have the
  reader and writer locks, which have no effect on a call that runs alone.
\<close>

definition emplace_opt :: "string \<Rightarrow> 'v option \<Rightarrow> 'v set_t \<Rightarrow> 'v set_t" where
  "emplace_opt name v s = (case v of None \<Rightarrow> s | Some x \<Rightarrow> s @ [(name, x)])"

definition populate :: "'v keyword_t \<Rightarrow> 'v set_t \<Rightarrow> 'v set_t" where
  "populate kw internal0 =
     (let internal1 = emplace_opt ''pid'' (pid kw) internal0;
          internal2 = emplace_opt ''tid'' (tid kw) internal1;
          internal3 = emplace_opt ''lwp'' (lwp kw) internal2
      in internal3 @ [(''timestamp'', timestamp kw)])"

text \<open>
  The calls \<open>open_record\<close> makes on its collaborators are recorded in the order they
  happen, next to what it returns: the probe that tells a viewed scoped stack from a
  merged one, and an evaluated filter from one that was never called.
\<close>

datatype call = Scoped_view | Filter_call | Scoped_merge

text \<open>
  \<open>open_record(attribute::set_t external, FilterArgs... args)\<close>. The mixed type's
  \<open>populate_additional\<close> is the first argument. The result has three parts: what the
  call returns or throws, the by-value parameter \<open>external\<close> as the function leaves
  it (\<open>None\<close> once it has been moved into the record), and the calls made.
\<close>

definition open_record ::
  "('v set_t \<Rightarrow> 'a \<Rightarrow> 'v set_t) \<Rightarrow> 'v keyword_t \<Rightarrow> ('v, 'a, 'w) composite_logger_t \<Rightarrow>
   'v set_t \<Rightarrow> 'a \<Rightarrow> (error + 'v record_t) \<times> 'v set_t option \<times> call list" where
  "open_record populate_additional kw lg ext args =
     (if \<not> enabled lg then (Inr Invalid, Some ext, [])
      else
        (case filter_f lg (scoped_view (scoped lg) ext) args of
           Inl e \<Rightarrow> (Inl e, Some ext, [Scoped_view, Filter_call])
         | Inr False \<Rightarrow> (Inr Invalid, Some ext, [Scoped_view, Filter_call])
         | Inr True \<Rightarrow>
             (let internal1 = populate kw [];
                  internal2 = populate_additional internal1 args;
                  ext' = scoped_merge (scoped lg) ext
              in (Inr (Record internal2 ext'), None, [Scoped_view, Filter_call, Scoped_merge]))))"

text \<open>\<open>open_record(FilterArgs... args)\<close> and \<open>open_record(attribute::pair_t pair, FilterArgs... args)\<close>.\<close>

definition open_record_args ::
  "('v set_t \<Rightarrow> 'a \<Rightarrow> 'v set_t) \<Rightarrow> 'v keyword_t \<Rightarrow> ('v, 'a, 'w) composite_logger_t \<Rightarrow>
   'a \<Rightarrow> (error + 'v record_t) \<times> 'v set_t option \<times> call list" where
  "open_record_args populate_additional kw lg args =
     open_record populate_additional kw lg [] args"

definition open_record_pair ::
  "('v set_t \<Rightarrow> 'a \<Rightarrow> 'v set_t) \<Rightarrow> 'v keyword_t \<Rightarrow> ('v, 'a, 'w) composite_logger_t \<Rightarrow>
   'v pair_t \<Rightarrow> 'a \<Rightarrow> (error + 'v record_t) \<times> 'v set_t option \<times> call list" where
  "open_record_pair populate_additional kw lg pair args =
     open_record populate_additional kw lg [pair] args"

subsection \<open>push\<close>

text \<open>
  What \<open>push\<close> does to its collaborators, in order: \<open>Handle i ok\<close> is the call of
  \<open>handle\<close> on the frontend at position \<open>i\<close> of the list (\<open>ok\<close> tells whether it
  returned normally), \<open>Exception_call i\<close> the call of the exception handler from the
  \<open>catch\<close> block of that iteration.
\<close>

datatype push_event = Handle nat bool | Exception_call nat

text \<open>
  The loop of \<open>push\<close> from position \<open>i\<close> on. \<open>handle\<close> is inside the \<open>try\<close> block;
  the call \<open>d.exception()\<close> is in the \<open>catch (...)\<close> block, outside any \<open>try\<close>, so
  what it throws leaves the loop and \<open>push\<close>.
\<close>

fun push_loop ::
  "nat \<Rightarrow> ('v, 'w) base_frontend_t list \<Rightarrow> 'w exception_handler_t \<Rightarrow> 'v record_t \<Rightarrow> 'w \<Rightarrow>
   error option \<times> 'w \<times> push_event list" where
  "push_loop i [] handler r w = (None, w, [])"
| "push_loop i (f # fs) handler r w =
     (case f r w of
        (None, w1) \<Rightarrow>
          (case push_loop (Suc i) fs handler r w1 of
             (res, w2, evs) \<Rightarrow> (res, w2, Handle i True # evs))
      | (Some e, w1) \<Rightarrow>
          (case handler w1 of
             (None, w2) \<Rightarrow>
               (case push_loop (Suc i) fs handler r w2 of
                  (res, w3, evs) \<Rightarrow> (res, w3, Handle i False # Exception_call i # evs))
           | (Some e', w2) \<Rightarrow> (Some e', w2, [Handle i False, Exception_call i])))"

definition push ::
  "('v, 'a, 'w) composite_logger_t \<Rightarrow> 'v record_t \<Rightarrow> 'w \<Rightarrow> error option \<times> 'w \<times> push_event list" where
  "push lg r w = push_loop 0 (frontends lg) (exception lg) r w"

fun handled :: "push_event list \<Rightarrow> nat list" where
  "handled [] = []"
| "handled (Handle i ok # evs) = i # handled evs"
| "handled (Exception_call i # evs) = handled evs"

fun raised :: "push_event list \<Rightarrow> nat list" where
  "raised [] = []"
| "raised (Handle i ok # evs) = (if ok then raised evs else i # raised evs)"
| "raised (Exception_call i # evs) = raised evs"

fun exception_calls :: "push_event list \<Rightarrow> nat list" where
  "exception_calls [] = []"
| "exception_calls (Handle i ok # evs) = exception_calls evs"
| "exception_calls (Exception_call i # evs) = i # exception_calls evs"

subsection \<open>Move assignment\<close>

text \<open>
  \<open>operator=(composite_logger_t&& other)\<close> on two distinct loggers; the pair returned is
  \<open>*this\<close> and \<open>other\<close> after the call. The exchange of the enabled flags comes first,
  then the swaps of the filter, of the frontends and of the scoped attributes, in the
  order of the source. The locks carry no state of their own here.
\<close>

definition operator_assign ::
  "('v, 'a, 'w) composite_logger_t \<Rightarrow> ('v, 'a, 'w) composite_logger_t \<Rightarrow>
   ('v, 'a, 'w) composite_logger_t \<times> ('v, 'a, 'w) composite_logger_t" where
  "operator_assign this other =
     (let previous = enabled this;
          this1 = this\<lparr>enabled := enabled other\<rparr>;
          other1 = other\<lparr>enabled := previous\<rparr>;
          this2 = this1\<lparr>filter_f := filter_f other1\<rparr>;
          other2 = other1\<lparr>filter_f := filter_f this1\<rparr>;
          this3 = this2\<lparr>frontends := frontends other2\<rparr>;
          other3 = other2\<lparr>frontends := frontends this2\<rparr>;
          this4 = this3\<lparr>scoped := scoped other3\<rparr>;
          other4 = other3\<lparr>scoped := scoped this3\<rparr>
      in (this4, other4))"

section \<open>The verbose logger\<close>

record ('v, 'w) verbose_logger_t =
  base :: "('v, level_type, 'w) composite_logger_t"
  level :: underlying_type

definition default_filter :: "level_type \<Rightarrow> ('v, level_type) filter_type" where
  "default_filter threshold view lvl = Inr (underlying lvl \<ge> underlying threshold)"

definition verbose_logger_t :: "level_type \<Rightarrow> ('v, 'w) verbose_logger_t" where
  "verbose_logger_t lvl = \<lparr>base = composite_logger_t (default_filter lvl), level = underlying lvl\<rparr>"

definition verbosity :: "('v, 'w) verbose_logger_t \<Rightarrow> level_type" where
  "verbosity lg = Level (level lg)"

text \<open>\<open>set_filter(level_type level)\<close> and \<open>set_filter(level_type level, filter_type filter)\<close>.\<close>

definition verbose_set_filter :: "level_type \<Rightarrow> ('v, 'w) verbose_logger_t \<Rightarrow> ('v, 'w) verbose_logger_t" where
  "verbose_set_filter lvl lg =
     (let lg1 = lg\<lparr>base := set_filter (default_filter lvl) (base lg)\<rparr>
      in lg1\<lparr>level := underlying lvl\<rparr>)"

definition verbose_set_filter_custom ::
  "level_type \<Rightarrow> ('v, level_type) filter_type \<Rightarrow> ('v, 'w) verbose_logger_t \<Rightarrow> ('v, 'w) verbose_logger_t" where
  "verbose_set_filter_custom lvl flt lg =
     (let lg1 = lg\<lparr>base := set_filter flt (base lg)\<rparr>
      in lg1\<lparr>level := underlying lvl\<rparr>)"

definition verbose_populate_additional :: "'v keyword_t \<Rightarrow> 'v set_t \<Rightarrow> level_type \<Rightarrow> 'v set_t" where
  "verbose_populate_additional kw internal0 lvl = internal0 @ [(''severity'', severity kw lvl)]"

definition verbose_open_record ::
  "'v keyword_t \<Rightarrow> ('v, 'w) verbose_logger_t \<Rightarrow> level_type \<Rightarrow> 'v set_t \<Rightarrow>
   (error + 'v record_t) \<times> 'v set_t option \<times> call list" where
  "verbose_open_record kw lg lvl ext =
     open_record (verbose_populate_additional kw) kw (base lg) ext lvl"

text \<open>\<open>logger_base_t\<close> has no filter arguments and adds no attribute of its own.\<close>

definition base_populate_additional :: "'v set_t \<Rightarrow> unit \<Rightarrow> 'v set_t" where
  "base_populate_additional internal0 u = internal0"

section \<open>Attribute values\<close>

text \<open>
  attribute.hpp defines two structs around a variant. What decides how a value of one is
  made from a value of the other is the declarations: the alternatives of each variant
  and the constructors each struct declares. They are transcribed here as data. The C++
  types that occur:
\<close>

datatype cpp_type = Int_t | Int64_t | Double_t | String_view | Std_string | Value_t | Owned_t

text \<open>\<open>value_t::type\<close>, the variant of the borrowing value: its alternatives in order.\<close>

definition value_t_types :: "cpp_type list" where
  "value_t_types = [Int64_t, Double_t, String_view]"

text \<open>
  The metafunction \<open>into_owned\<close>: the specialisation sends \<open>string_view\<close> to
  \<open>std::string\<close>, the primary template sends every other type to itself.
\<close>

fun into_owned :: "cpp_type \<Rightarrow> cpp_type" where
  "into_owned String_view = Std_string"
| "into_owned T = T"

text \<open>
  \<open>owned_t::type\<close>, the variant of the owning value: \<open>make_variant_over\<close> the
  alternatives of \<open>value_t::type\<close> transformed by \<open>into_owned\<close>.
\<close>

definition owned_t_types :: "cpp_type list" where
  "owned_t_types = map into_owned value_t_types"

text \<open>
  The constructors each struct declares, by parameter type (\<open>const owned_t&\<close> takes an
  \<open>owned_t\<close>), in the order of the header. The implicit copy and move constructors take
  the struct's own type and are left out; neither struct declares a conversion operator.
\<close>

definition value_t_constructors :: "cpp_type list" where
  "value_t_constructors = [Int_t, Double_t, String_view, Owned_t]"

definition owned_t_constructors :: "cpp_type list" where
  "owned_t_constructors = [Int_t, Double_t, Std_string]"

text \<open>
  A struct can be constructed from an argument of type \<open>arg\<close> when one of its
  constructors takes that type.
\<close>

definition constructible :: "cpp_type list \<Rightarrow> cpp_type \<Rightarrow> bool" where
  "constructible constructors arg \<longleftrightarrow> arg \<in> set constructors"

section \<open>Registry and builder\<close>

text \<open>
  Modelled from the spec: \<open>registry_t\<close> is an interface of pure virtual functions and
  \<open>builder_t::build\<close> a declaration; the implementations are not among the sources. The
  registry state is three independent mappings from a type name to a factory. A factory
  takes a configuration node (\<open>'n\<close>, opaque) and returns a new sink (\<open>'s\<close>), handler
  (\<open>'h\<close>) or formatter (\<open>'f\<close>), or fails with a configuration error.
\<close>

type_synonym ('n, 'x) factory_t = "'n \<Rightarrow> error + 'x"

record ('n, 's, 'h, 'f) registry_t =
  sinks :: "string \<rightharpoonup> ('n, 's) factory_t"
  handlers :: "string \<rightharpoonup> ('n, 'h) factory_t"
  formatters :: "string \<rightharpoonup> ('n, 'f) factory_t"

text \<open>Modelled from the spec: \<open>registry::empty()\<close>, a registry with nothing registered.\<close>

definition registry_empty :: "('n, 's, 'h, 'f) registry_t" where
  "registry_empty = \<lparr>sinks = Map.empty, handlers = Map.empty, formatters = Map.empty\<rparr>"

text \<open>
  Modelled from the spec: a lookup returns the factory registered under exactly that
  name and throws NotFound otherwise.
\<close>

definition sink :: "('n, 's, 'h, 'f) registry_t \<Rightarrow> string \<Rightarrow> error + ('n, 's) factory_t" where
  "sink reg type = (case sinks reg type of None \<Rightarrow> Inl NotFound | Some mk \<Rightarrow> Inr mk)"

definition handler :: "('n, 's, 'h, 'f) registry_t \<Rightarrow> string \<Rightarrow> error + ('n, 'h) factory_t" where
  "handler reg type = (case handlers reg type of None \<Rightarrow> Inl NotFound | Some mk \<Rightarrow> Inr mk)"

definition formatter :: "('n, 's, 'h, 'f) registry_t \<Rightarrow> string \<Rightarrow> error + ('n, 'f) factory_t" where
  "formatter reg type = (case formatters reg type of None \<Rightarrow> Inl NotFound | Some mk \<Rightarrow> Inr mk)"

text \<open>
  Modelled from the spec: registration under a name; the last registration of a name
  wins.
\<close>

definition add_sink ::
  "string \<Rightarrow> ('n, 's) factory_t \<Rightarrow> ('n, 's, 'h, 'f) registry_t \<Rightarrow> ('n, 's, 'h, 'f) registry_t" where
  "add_sink type mk reg = reg\<lparr>sinks := (sinks reg)(type \<mapsto> mk)\<rparr>"

definition add_handler ::
  "string \<Rightarrow> ('n, 'h) factory_t \<Rightarrow> ('n, 's, 'h, 'f) registry_t \<Rightarrow> ('n, 's, 'h, 'f) registry_t" where
  "add_handler type mk reg = reg\<lparr>handlers := (handlers reg)(type \<mapsto> mk)\<rparr>"

definition add_formatter ::
  "string \<Rightarrow> ('n, 'f) factory_t \<Rightarrow> ('n, 's, 'h, 'f) registry_t \<Rightarrow> ('n, 's, 'h, 'f) registry_t" where
  "add_formatter type mk reg = reg\<lparr>formatters := (formatters reg)(type \<mapsto> mk)\<rparr>"

text \<open>
  Modelled from the spec: the configuration document is opaque; what \<open>build\<close> reads of
  it is, for a logger name, the sequence of its handler definitions, each naming the type
  of the handler, of its formatter and of its sinks, with the node handed to each factory.
  A handler combines one formatter with its sinks; the logger returned holds the handlers
  in the order of the document.
\<close>

record 'n handler_config =
  handler_type :: "string \<times> 'n"
  formatter_type :: "string \<times> 'n"
  sink_types :: "(string \<times> 'n) list"

record ('s, 'h, 'f) handler_t =
  adapter :: 'h
  formatter_of :: 'f
  sinks_of :: "'s list"

record ('s, 'h, 'f) root_logger_t =
  logger_name :: string
  attached :: "('s, 'h, 'f) handler_t list"

record ('n, 's, 'h, 'f) builder_t =
  registry :: "('n, 's, 'h, 'f) registry_t"
  factory :: "string \<Rightarrow> 'n handler_config list"

text \<open>
  Modelled from the spec: the walk of \<open>build\<close>. The handler definitions are taken in
  order; for each, the handler type is looked up, then the formatter is resolved (looked
  up and constructed from its node), then each sink in order, then the handler is
  constructed. The first failure, a lookup's NotFound or a factory's own error, ends the
  walk and is what \<open>build\<close> throws, unmodified.
\<close>

fun build_sinks :: "('n, 's, 'h, 'f) registry_t \<Rightarrow> (string \<times> 'n) list \<Rightarrow> error + 's list" where
  "build_sinks reg [] = Inr []"
| "build_sinks reg ((type, node) # rest) =
     (case sink reg type of
        Inl e \<Rightarrow> Inl e
      | Inr mk \<Rightarrow>
          (case mk node of
             Inl e \<Rightarrow> Inl e
           | Inr s \<Rightarrow>
               (case build_sinks reg rest of
                  Inl e \<Rightarrow> Inl e
                | Inr ss \<Rightarrow> Inr (s # ss))))"

definition build_handler ::
  "('n, 's, 'h, 'f) registry_t \<Rightarrow> 'n handler_config \<Rightarrow> error + ('s, 'h, 'f) handler_t" where
  "build_handler reg cfg =
     (case handler reg (fst (handler_type cfg)) of
        Inl e \<Rightarrow> Inl e
      | Inr mk_handler \<Rightarrow>
          (case formatter reg (fst (formatter_type cfg)) of
             Inl e \<Rightarrow> Inl e
           | Inr mk_formatter \<Rightarrow>
               (case mk_formatter (snd (formatter_type cfg)) of
                  Inl e \<Rightarrow> Inl e
                | Inr f \<Rightarrow>
                    (case build_sinks reg (sink_types cfg) of
                       Inl e \<Rightarrow> Inl e
                     | Inr ss \<Rightarrow>
                         (case mk_handler (snd (handler_type cfg)) of
                            Inl e \<Rightarrow> Inl e
                          | Inr h \<Rightarrow> Inr \<lparr>adapter = h, formatter_of = f, sinks_of = ss\<rparr>)))))"

fun build_handlers ::
  "('n, 's, 'h, 'f) registry_t \<Rightarrow> 'n handler_config list \<Rightarrow> error + ('s, 'h, 'f) handler_t list" where
  "build_handlers reg [] = Inr []"
| "build_handlers reg (cfg # rest) =
     (case build_handler reg cfg of
        Inl e \<Rightarrow> Inl e
      | Inr h \<Rightarrow>
          (case build_handlers reg rest of
             Inl e \<Rightarrow> Inl e
           | Inr hs \<Rightarrow> Inr (h # hs)))"

definition build :: "('n, 's, 'h, 'f) builder_t \<Rightarrow> string \<Rightarrow> error + ('s, 'h, 'f) root_logger_t" where
  "build b name =
     (case build_handlers (registry b) (factory b name) of
        Inl e \<Rightarrow> Inl e
      | Inr hs \<Rightarrow> Inr \<lparr>logger_name = name, attached = hs\<rparr>)"

text \<open>A handler definition names a type that the registry lacks.\<close>

definition unregistered :: "('n, 's, 'h, 'f) registry_t \<Rightarrow> 'n handler_config \<Rightarrow> bool" where
  "unregistered reg cfg \<longleftrightarrow>
     handlers reg (fst (handler_type cfg)) = None \<or>
     formatters reg (fst (formatter_type cfg)) = None \<or>
     (\<exists>x \<in> set (sink_types cfg). sinks reg (fst x) = None)"

text \<open>
  The factory found for a name, if any, succeeds on the node; and every factory the
  registry holds for a name of a handler definition succeeds on the node given with it.
\<close>

fun succeeds :: "('n, 'x) factory_t option \<Rightarrow> 'n \<Rightarrow> bool" where
  "succeeds None node = True"
| "succeeds (Some mk) node = (case mk node of Inl e \<Rightarrow> False | Inr x \<Rightarrow> True)"

definition factories_succeed :: "('n, 's, 'h, 'f) registry_t \<Rightarrow> 'n handler_config \<Rightarrow> bool" where
  "factories_succeed reg cfg \<longleftrightarrow>
     succeeds (handlers reg (fst (handler_type cfg))) (snd (handler_type cfg)) \<and>
     succeeds (formatters reg (fst (formatter_type cfg))) (snd (formatter_type cfg)) \<and>
     list_all (\<lambda>x. succeeds (sinks reg (fst x)) (snd x)) (sink_types cfg)"

section \<open>Example inputs\<close>

text \<open>
  A build without process, thread and lightweight-process attributes except the process
  id; attribute values are integers and a severity is stored as its ordinal.
\<close>

definition example_keywords :: "int keyword_t" where
  "example_keywords =
     \<lparr>pid = Some 4242, tid = None, lwp = None, timestamp = 1700000000, severity = underlying\<rparr>"

text \<open>A disabled logger whose filter is an empty \<open>std::function\<close>.\<close>

definition disabled_logger :: "(int, unit, nat) composite_logger_t" where
  "disabled_logger = set_enabled False (composite_logger_t (\<lambda>view args. Inl Bad_function_call))"

text \<open>An enabled logger that rejects everything, with one scoped frame active.\<close>

definition rejecting_logger :: "(int, unit, nat) composite_logger_t" where
  "rejecting_logger = (composite_logger_t (\<lambda>view args. Inr False))\<lparr>scoped := [[(''scope'', 1)]]\<rparr>"

text \<open>
  Frontend A always throws, frontend B counts the records it receives in the world; the
  quiet policy counts its calls in steps of 100, the rethrowing policy throws.
\<close>

definition frontend_A :: "(int, nat) base_frontend_t" where
  "frontend_A r w = (Some (Failure ''A''), w)"

definition frontend_B :: "(int, nat) base_frontend_t" where
  "frontend_B r w = (None, Suc w)"

definition quiet_policy :: "nat exception_handler_t" where
  "quiet_policy w = (None, w + 100)"

definition rethrowing_policy :: "nat exception_handler_t" where
  "rethrowing_policy w = (Some (Failure ''policy''), w)"

definition isolating_logger :: "(int, unit, nat) composite_logger_t" where
  "isolating_logger =
     add_frontend frontend_B (add_frontend frontend_A
       (set_exception_handler quiet_policy (composite_logger_t (\<lambda>view args. Inr True))))"

definition rethrowing_logger :: "(int, unit, nat) composite_logger_t" where
  "rethrowing_logger =
     add_frontend frontend_B (add_frontend frontend_A
       (set_exception_handler rethrowing_policy (composite_logger_t (\<lambda>view args. Inr True))))"

text \<open>A severity logger at threshold WARNING (ordinal 2).\<close>

definition warning_logger :: "(int, nat) verbose_logger_t" where
  "warning_logger = verbose_logger_t (Level 2)"

text \<open>
  A registry that knows the handler type and the formatter type of the configuration of
  logger "app", but not its sink type "file"; its factories accept every node.
\<close>

definition example_registry :: "(bool, unit, unit, unit) registry_t" where
  "example_registry =
     add_formatter ''string'' (\<lambda>node. Inr ())
       (add_handler ''blocking'' (\<lambda>node. Inr ()) registry_empty)"

definition example_config :: "bool handler_config" where
  "example_config =
     \<lparr>handler_type = (''blocking'', True), formatter_type = (''string'', True),
      sink_types = [(''file'', True)]\<rparr>"

definition example_builder :: "(bool, unit, unit, unit) builder_t" where
  "example_builder =
     \<lparr>registry = example_registry,
      factory = (\<lambda>name. if name = ''app'' then [example_config] else [])\<rparr>"

text \<open>
  The same handler and formatter types, and a sink type "null"; the formatter factory
  requires a field that a node has (\<open>True\<close>) or lacks (\<open>False\<close>). The first handler
  definition of logger "app" gives the formatter a node without the field, the second
  names the sink type "file", which is not registered.
\<close>

definition strict_registry :: "(bool, unit, unit, unit) registry_t" where
  "strict_registry =
     add_sink ''null'' (\<lambda>node. Inr ())
       (add_formatter ''string'' (\<lambda>node. if node then Inr () else Inl (Failure ''missing field''))
         (add_handler ''blocking'' (\<lambda>node. Inr ()) registry_empty))"

definition malformed_config :: "bool handler_config" where
  "malformed_config =
     \<lparr>handler_type = (''blocking'', True), formatter_type = (''string'', False),
      sink_types = [(''null'', True)]\<rparr>"

definition strict_builder :: "(bool, unit, unit, unit) builder_t" where
  "strict_builder =
     \<lparr>registry = strict_registry,
      factory = (\<lambda>name. if name = ''app'' then [malformed_config, example_config] else [])\<rparr>"

section \<open>Opening a record\<close>

text \<open>
  C2. A logger whose enabled flag is false returns the invalid record for every external
  attribute set and every tuple of filter arguments, whatever filter is installed; no
  call is made, so the filter is not evaluated, and the external set is as it was.
\<close>

theorem open_record_disabled:
  "\<not> enabled lg \<Longrightarrow> open_record pa kw lg ext args = (Inr Invalid, Some ext, [])"
  by (simp add: open_record_def)

text \<open>The same at a disabled logger whose filter would throw if it were called.\<close>

theorem open_record_disabled_witness:
  "\<not> enabled disabled_logger \<and>
   open_record base_populate_additional example_keywords disabled_logger [(''k'', 1)] ()
     = (Inr Invalid, Some [(''k'', 1)], [])"
proof -
  have h: "\<not> enabled disabled_logger"
    by (simp add: disabled_logger_def set_enabled_def composite_logger_t_def)
  show ?thesis using h open_record_disabled [OF h] by simp
qed

text \<open>
  C3. On an enabled logger, when the filter evaluates to false over the view of the scoped
  stack with the external set and the filter arguments, the invalid record is returned,
  the scoped stack has been viewed but never merged, and the external set is unchanged.
\<close>

theorem open_record_filtered:
  assumes "enabled lg" and "filter_f lg (scoped_view (scoped lg) ext) args = Inr False"
  shows "open_record pa kw lg ext args = (Inr Invalid, Some ext, [Scoped_view, Filter_call])
         \<and> Scoped_merge \<notin> set (snd (snd (open_record pa kw lg ext args)))"
  using assms by (simp add: open_record_def)

theorem open_record_filtered_witness:
  "enabled rejecting_logger \<and>
   filter_f rejecting_logger (scoped_view (scoped rejecting_logger) [(''k'', 1)]) () = Inr False \<and>
   open_record base_populate_additional example_keywords rejecting_logger [(''k'', 1)] ()
     = (Inr Invalid, Some [(''k'', 1)], [Scoped_view, Filter_call])"
proof -
  have h1: "enabled rejecting_logger"
    by (simp add: rejecting_logger_def composite_logger_t_def)
  have h2: "filter_f rejecting_logger (scoped_view (scoped rejecting_logger) [(''k'', 1)]) () = Inr False"
    by (simp add: rejecting_logger_def composite_logger_t_def)
  show ?thesis using h1 h2 open_record_filtered [OF h1 h2] by simp
qed

text \<open>
  C10. The overload without attributes is \<open>open_record\<close> at the empty attribute set, the
  overload with one pair is \<open>open_record\<close> at the set holding exactly that pair.
\<close>

theorem open_record_overloads:
  "open_record_args pa kw lg args = open_record pa kw lg [] args \<and>
   open_record_pair pa kw lg pair args = open_record pa kw lg [pair] args"
  by (simp add: open_record_args_def open_record_pair_def)

section \<open>The severity threshold\<close>

lemma timestamp_in_populate: "(''timestamp'', timestamp kw) \<in> set (populate kw s)"
  by (simp add: populate_def Let_def)

text \<open>
  C4. An enabled severity logger whose filter is the default filter at threshold \<open>T\<close>
  returns, for every level \<open>L\<close>, a record that is valid exactly when the ordinal of \<open>L\<close>
  is at least the ordinal of \<open>T\<close>; the internal set of a valid record holds the severity
  attribute with the value of \<open>L\<close> and the timestamp attribute.
\<close>

theorem verbose_open_record_threshold:
  assumes "enabled (base lg)" and "filter_f (base lg) = default_filter T"
  shows "\<exists>r. fst (verbose_open_record kw lg L ext) = Inr r \<and>
           (valid r \<longleftrightarrow> underlying T \<le> underlying L) \<and>
           (valid r \<longrightarrow> (''severity'', severity kw L) \<in> set (internal r) \<and>
                        (''timestamp'', timestamp kw) \<in> set (internal r))"
  using assms
  by (simp add: verbose_open_record_def open_record_def default_filter_def Let_def
      verbose_populate_additional_def timestamp_in_populate split: bool.split)

text \<open>Threshold WARNING (2): ERROR (3) opens a valid record, INFO (1) the invalid one.\<close>

theorem verbose_open_record_threshold_witness:
  "enabled (base warning_logger) \<and> filter_f (base warning_logger) = default_filter (Level 2) \<and>
   (\<exists>r. fst (verbose_open_record example_keywords warning_logger (Level 3) []) = Inr r \<and>
      valid r \<and> (''severity'', 3) \<in> set (internal r) \<and>
      (''timestamp'', 1700000000) \<in> set (internal r)) \<and>
   fst (verbose_open_record example_keywords warning_logger (Level 1) []) = Inr Invalid"
proof -
  have h1: "enabled (base warning_logger)"
    by (simp add: warning_logger_def verbose_logger_t_def composite_logger_t_def)
  have h2: "filter_f (base warning_logger) = default_filter (Level 2)"
    by (simp add: warning_logger_def verbose_logger_t_def composite_logger_t_def)
  have kw: "severity example_keywords (Level 3) = 3" "timestamp example_keywords = 1700000000"
    by (simp_all add: example_keywords_def)
  from verbose_open_record_threshold [OF h1 h2, of example_keywords "Level 3" "[]"]
  have a: "\<exists>r. fst (verbose_open_record example_keywords warning_logger (Level 3) []) = Inr r \<and>
      valid r \<and> (''severity'', 3) \<in> set (internal r) \<and>
      (''timestamp'', 1700000000) \<in> set (internal r)"
    by (auto simp: kw)
  from verbose_open_record_threshold [OF h1 h2, of example_keywords "Level 1" "[]"]
  obtain r where "fst (verbose_open_record example_keywords warning_logger (Level 1) []) = Inr r"
    and "\<not> valid r"
    by auto
  then have b: "fst (verbose_open_record example_keywords warning_logger (Level 1) []) = Inr Invalid"
    by (cases r) simp_all
  show ?thesis using h1 h2 a b by simp
qed

text \<open>
  C7. \<open>set_filter(L)\<close> installs the default filter at threshold \<open>L\<close> and \<open>verbosity()\<close>
  returns \<open>L\<close> afterwards; \<open>set_filter(L, p)\<close> installs the predicate \<open>p\<close> as it is and
  \<open>verbosity()\<close> returns \<open>L\<close> as well.
\<close>

theorem verbose_set_filter_verbosity:
  "verbosity (verbose_set_filter L lg) = L \<and>
   filter_f (base (verbose_set_filter L lg)) = default_filter L \<and>
   verbosity (verbose_set_filter_custom L p lg) = L \<and>
   filter_f (base (verbose_set_filter_custom L p lg)) = p"
  by (simp add: verbosity_def verbose_set_filter_def verbose_set_filter_custom_def
      set_filter_def Let_def)

section \<open>Dispatch to the frontends\<close>

lemma push_loop_isolates:
  assumes quiet: "\<forall>w. fst (h w) = None"
  shows "\<exists>w' evs. push_loop i fs h r w = (None, w', evs) \<and>
           handled evs = [i..<i + length fs] \<and> exception_calls evs = raised evs"
proof (induction fs arbitrary: i w)
  case Nil
  show ?case by simp
next
  case (Cons f fs)
  obtain res w1 where f: "f r w = (res, w1)" by (cases "f r w")
  have upt: "[i..<i + length (f # fs)] = i # [Suc i..<Suc i + length fs]"
    by (simp del: upt_Suc add: upt_rec [of i])
  show ?case
  proof (cases res)
    case None
    from Cons.IH [of "Suc i" w1] obtain w' evs where
      "push_loop (Suc i) fs h r w1 = (None, w', evs)"
      "handled evs = [Suc i..<Suc i + length fs]" "exception_calls evs = raised evs"
      by blast
    with f None upt show ?thesis by simp
  next
    case (Some e)
    obtain res' w2 where h: "h w1 = (res', w2)" by (cases "h w1")
    with quiet [rule_format, of w1] have res': "res' = None" by simp
    from Cons.IH [of "Suc i" w2] obtain w' evs where
      "push_loop (Suc i) fs h r w2 = (None, w', evs)"
      "handled evs = [Suc i..<Suc i + length fs]" "exception_calls evs = raised evs"
      by blast
    with f Some h res' upt show ?thesis by simp
  qed
qed

text \<open>
  C1, amended. When the exception handler installed in the logger returns normally
  whenever it is called, \<open>push\<close> returns normally for every record and every list of
  frontends, has called \<open>handle\<close> on each attached frontend exactly once, in attachment
  order, and has called the exception handler once for each frontend whose \<open>handle\<close>
  threw, in that order.
\<close>

theorem push_isolates_failures:
  assumes "\<forall>w. fst (exception lg w) = None"
  shows "\<exists>w' evs. push lg r w = (None, w', evs) \<and>
           handled evs = [0..<length (frontends lg)] \<and> exception_calls evs = raised evs"
  using push_loop_isolates [OF assms, of 0 "frontends lg" r w] by (simp add: push_def)

text \<open>
  Frontend A throws, frontend B receives the record all the same, and the policy is
  called once.
\<close>

theorem push_isolates_failures_witness:
  "(\<forall>w. fst (exception isolating_logger w) = None) \<and>
   (\<exists>w' evs. push isolating_logger (Record [] []) 0 = (None, w', evs) \<and>
      handled evs = [0..<length (frontends isolating_logger)] \<and> exception_calls evs = raised evs) \<and>
   push isolating_logger (Record [] []) 0
     = (None, 101, [Handle 0 False, Exception_call 0, Handle 1 True])"
proof -
  have h: "\<forall>w. fst (exception isolating_logger w) = None"
    by (simp add: isolating_logger_def add_frontend_def set_exception_handler_def
        composite_logger_t_def quiet_policy_def)
  have e: "push isolating_logger (Record [] []) 0
             = (None, 101, [Handle 0 False, Exception_call 0, Handle 1 True])"
    by (simp add: push_def isolating_logger_def add_frontend_def set_exception_handler_def
        composite_logger_t_def quiet_policy_def frontend_A_def frontend_B_def)
  show ?thesis using h e push_isolates_failures [OF h, of "Record [] []" 0] by simp
qed

text \<open>
  C1 as stated fails where the installed exception handler throws: the exception leaves
  \<open>push\<close>, and frontend B, attached after the failing frontend A, is never called.
\<close>

theorem push_raises_counterexample:
  "push rethrowing_logger (Record [(''timestamp'', 1700000000)] []) 0
   = (Some (Failure ''policy''), 0, [Handle 0 False, Exception_call 0])"
  by (simp add: push_def rethrowing_logger_def add_frontend_def set_exception_handler_def
        composite_logger_t_def rethrowing_policy_def frontend_A_def frontend_B_def)

section \<open>Move assignment\<close>

text \<open>What the move assignment exchanges, and what it leaves where it was.\<close>

lemma operator_assign_swaps:
  "filter_f (fst (operator_assign dst src)) = filter_f src \<and>
   frontends (fst (operator_assign dst src)) = frontends src \<and>
   scoped (fst (operator_assign dst src)) = scoped src \<and>
   enabled (fst (operator_assign dst src)) = enabled src \<and>
   filter_f (snd (operator_assign dst src)) = filter_f dst \<and>
   frontends (snd (operator_assign dst src)) = frontends dst \<and>
   scoped (snd (operator_assign dst src)) = scoped dst \<and>
   enabled (snd (operator_assign dst src)) = enabled dst"
  by (simp add: operator_assign_def Let_def)

lemma operator_assign_exception:
  "exception (fst (operator_assign dst src)) = exception dst \<and>
   exception (snd (operator_assign dst src)) = exception src"
  by (simp add: operator_assign_def Let_def)

text \<open>
  C6. The transfer is meant to leave the destination with the source's filter, frontends,
  exception policy, scoped state and enabled flag. Moving \<open>isolating_logger\<close> into a
  freshly constructed logger carries the two frontends over, yet the destination still
  runs its own default policy (the world stays 0), not the source's (which adds 100).
\<close>

theorem operator_assign_drops_exception:
  "exception (fst (operator_assign (composite_logger_t (\<lambda>view args. Inr True)) isolating_logger)) 0
     = (None, 0) \<and>
   exception isolating_logger 0 = (None, 100) \<and>
   frontends (fst (operator_assign (composite_logger_t (\<lambda>view args. Inr True)) isolating_logger))
     = [frontend_A, frontend_B]"
  by (simp add: operator_assign_def isolating_logger_def add_frontend_def set_exception_handler_def
        composite_logger_t_def quiet_policy_def default_exception_handler_t_def Let_def)

section \<open>Borrowing and owning values\<close>

text \<open>
  C5 as stated says that an owning value is constructed from a borrowing value and that
  no borrowing value is constructed from an owning one. The declarations have it the
  other way round: \<open>value_t\<close> declares a constructor from \<open>const owned_t&\<close>, and
  \<open>owned_t\<close> declares none from a \<open>value_t\<close>.
\<close>

theorem constructible_counterexample:
  "\<not> (constructible owned_t_constructors Value_t \<and> \<not> constructible value_t_constructors Owned_t)"
  by (simp add: constructible_def value_t_constructors_def owned_t_constructors_def)

text \<open>
  C5, amended. The owning variant has, for the alternatives int64, double and text view
  of the borrowing variant, the alternatives int64, double and owned string, and none of
  its alternatives is a view. An owning value is constructed from an int, a double or an
  owned string, and not from a borrowing value; a borrowing value is constructed from an
  owning value, by the constructor \<open>value_t\<close> declares for it.
\<close>

theorem owned_value_declarations:
  "owned_t_types = [Int64_t, Double_t, Std_string] \<and>
   String_view \<notin> set owned_t_types \<and>
   constructible owned_t_constructors Int_t \<and>
   constructible owned_t_constructors Double_t \<and>
   constructible owned_t_constructors Std_string \<and>
   \<not> constructible owned_t_constructors Value_t \<and>
   constructible value_t_constructors Owned_t"
  by (simp add: constructible_def value_t_constructors_def owned_t_constructors_def
      owned_t_types_def value_t_types_def)

section \<open>Registry lookups\<close>

lemma build_sinks_fails:
  "x \<in> set xs \<Longrightarrow> sinks reg (fst x) = None \<Longrightarrow> \<exists>e. build_sinks reg xs = Inl e"
  by (induction xs) (auto simp: sink_def split: option.splits sum.splits)

lemma build_handler_fails: "unregistered reg cfg \<Longrightarrow> \<exists>e. build_handler reg cfg = Inl e"
  by (auto simp: build_handler_def handler_def formatter_def unregistered_def
      split: option.splits sum.splits dest: build_sinks_fails)

lemma build_handlers_fails:
  "cfg \<in> set cfgs \<Longrightarrow> unregistered reg cfg \<Longrightarrow> \<exists>e. build_handlers reg cfgs = Inl e"
  by (induction cfgs) (auto split: sum.splits dest: build_handler_fails)

lemma build_sinks_error:
  "list_all (\<lambda>x. succeeds (sinks reg (fst x)) (snd x)) xs \<Longrightarrow> build_sinks reg xs = Inl e \<Longrightarrow>
   e = NotFound"
  by (induction xs arbitrary: e) (auto simp: sink_def split: option.splits sum.splits)

lemma build_handler_error:
  "factories_succeed reg cfg \<Longrightarrow> build_handler reg cfg = Inl e \<Longrightarrow> e = NotFound"
  by (auto simp: build_handler_def handler_def formatter_def factories_succeed_def
      split: option.splits sum.splits dest: build_sinks_error)

lemma build_handlers_error:
  "\<forall>cfg \<in> set cfgs. factories_succeed reg cfg \<Longrightarrow> build_handlers reg cfgs = Inl e \<Longrightarrow>
   e = NotFound"
  by (induction cfgs arbitrary: e) (auto split: sum.splits dest: build_handler_error)

text \<open>
  C8, amended. A lookup of a type name that the corresponding mapping of the registry
  does not hold fails with NotFound, for sinks, handlers and formatters alike. \<open>build\<close>
  on a configuration in which a handler definition of the logger names such a type
  fails and returns no logger; the failure is NotFound when every factory registered
  for a name of the logger's handler definitions succeeds on the node given with it.
\<close>

theorem registry_not_found:
  "(sinks reg t = None \<longrightarrow> sink reg t = Inl NotFound) \<and>
   (handlers reg t = None \<longrightarrow> handler reg t = Inl NotFound) \<and>
   (formatters reg t = None \<longrightarrow> formatter reg t = Inl NotFound) \<and>
   ((\<exists>cfg \<in> set (factory b name). unregistered (registry b) cfg) \<longrightarrow>
      (\<exists>e. build b name = Inl e) \<and>
      ((\<forall>cfg \<in> set (factory b name). factories_succeed (registry b) cfg) \<longrightarrow>
         build b name = Inl NotFound))"
proof -
  have fails: "\<exists>e. build b name = Inl e"
    if "\<exists>cfg \<in> set (factory b name). unregistered (registry b) cfg"
  proof -
    from that obtain cfg where "cfg \<in> set (factory b name)" "unregistered (registry b) cfg"
      by blast
    from build_handlers_fails [OF this] show ?thesis by (auto simp: build_def)
  qed
  have not_found: "build b name = Inl NotFound"
    if "\<exists>cfg \<in> set (factory b name). unregistered (registry b) cfg"
      and ok: "\<forall>cfg \<in> set (factory b name). factories_succeed (registry b) cfg"
  proof -
    from fails [OF that(1)] obtain e where e: "build b name = Inl e" ..
    then have "build_handlers (registry b) (factory b name) = Inl e"
      by (simp add: build_def split: sum.splits)
    from build_handlers_error [OF ok this] e show ?thesis by simp
  qed
  show ?thesis using fails not_found by (simp add: sink_def handler_def formatter_def)
qed

text \<open>
  The lookups at registries that lack the name, and \<open>build\<close> of logger "app", whose sink
  type "file" is not registered while its handler and formatter factories accept their
  nodes.
\<close>

theorem registry_not_found_witness:
  "sinks example_registry ''file'' = None \<and> sink example_registry ''file'' = Inl NotFound \<and>
   handlers (registry_empty :: (bool, unit, unit, unit) registry_t) ''blocking'' = None \<and>
   handler (registry_empty :: (bool, unit, unit, unit) registry_t) ''blocking'' = Inl NotFound \<and>
   formatters (registry_empty :: (bool, unit, unit, unit) registry_t) ''string'' = None \<and>
   formatter (registry_empty :: (bool, unit, unit, unit) registry_t) ''string'' = Inl NotFound \<and>
   factory example_builder ''app'' = [example_config] \<and>
   unregistered (registry example_builder) example_config \<and>
   factories_succeed (registry example_builder) example_config \<and>
   build example_builder ''app'' = Inl NotFound"
proof -
  have h1: "sinks example_registry ''file'' = None"
    by (simp add: example_registry_def add_formatter_def add_handler_def registry_empty_def)
  have h2: "handlers (registry_empty :: (bool, unit, unit, unit) registry_t) ''blocking'' = None"
    by (simp add: registry_empty_def)
  have h3: "formatters (registry_empty :: (bool, unit, unit, unit) registry_t) ''string'' = None"
    by (simp add: registry_empty_def)
  have h4: "factory example_builder ''app'' = [example_config]"
    by (simp add: example_builder_def)
  have h5: "unregistered (registry example_builder) example_config"
    by (simp add: example_builder_def unregistered_def example_config_def h1)
  have h6: "factories_succeed (registry example_builder) example_config"
    by (simp add: example_builder_def factories_succeed_def example_config_def
        example_registry_def add_formatter_def add_handler_def registry_empty_def)
  have a: "\<exists>cfg \<in> set (factory example_builder ''app''). unregistered (registry example_builder) cfg"
    using h4 h5 by simp
  have b: "\<forall>cfg \<in> set (factory example_builder ''app''). factories_succeed (registry example_builder) cfg"
    using h4 h6 by simp
  show ?thesis
    using h1 h2 h3 h4 h5 h6 a b
      registry_not_found [of example_registry "''file''" example_builder "''app''"]
      registry_not_found [of registry_empty "''blocking''" example_builder "''app''"]
      registry_not_found [of registry_empty "''string''" example_builder "''app''"]
    by blast
qed

text \<open>
  C8 as stated fails where a factory fails before the walk reaches the unregistered name:
  the second handler definition of logger "app" names the unregistered sink type "file",
  but the formatter factory of the first rejects its node, and \<open>build\<close> fails with that
  configuration error, not with NotFound.
\<close>

theorem build_configuration_error_counterexample:
  "sinks (registry strict_builder) ''file'' = None \<and>
   factory strict_builder ''app'' = [malformed_config, example_config] \<and>
   unregistered (registry strict_builder) example_config \<and>
   build strict_builder ''app'' = Inl (Failure ''missing field'')"
  by (simp add: strict_builder_def strict_registry_def malformed_config_def example_config_def
      unregistered_def build_def build_handler_def handler_def formatter_def sink_def
      add_sink_def add_formatter_def add_handler_def registry_empty_def)

end
